theory Spec2Isabelle
  imports Main
begin

section \<open>The Result container of package do\<close>

text \<open>
  The Go package wraps a value of type \<open>T\<close> together with an \<open>error\<close> and an optional
  error handler, and offers combinators that skip the caller's functions once an error
  is stored.

  Go's \<open>error\<close> is an interface value that may be \<open>nil\<close>: it is modelled as
  \<open>'e option\<close>, with \<open>None\<close> for \<open>nil\<close>.  A function value supplied by the caller
  may have side effects (the tests count calls in a captured variable), so every
  caller-supplied function threads a world state of an arbitrary type \<open>'s\<close>: a Go
  \<open>func(T) U\<close> is a HOL function \<open>'a \<Rightarrow> 's \<Rightarrow> 'b \<times> 's\<close>.  The functions are
  taken to return: one that panics or loops ends the caller's chain in Go as well.
  The field \<open>errHandler\<close> is a function value that may be \<open>nil\<close>, hence an option.
\<close>

type_synonym 'e error = "'e option"

type_synonym ('a, 'b, 's) func = "'a \<Rightarrow> 's \<Rightarrow> 'b \<times> 's"

record ('a, 'e, 's) Result =
  val :: 'a
  err :: "'e error"
  errHandler :: "('e error, 'e error, 's) func option"

datatype panic = Panic string

subsection \<open>Construction and inspection\<close>

definition WithReturn :: "'a \<Rightarrow> 'e error \<Rightarrow> ('a, 'e, 's) Result" where
  "WithReturn v e = \<lparr>val = v, err = e, errHandler = None\<rparr>"

definition WithJust :: "'a \<Rightarrow> ('a, 'e, 's) Result" where
  "WithJust v = \<lparr>val = v, err = None, errHandler = None\<rparr>"

definition IsError :: "('a, 'e, 's) Result \<Rightarrow> bool" where
  "IsError r = (err r \<noteq> None)"

definition Err :: "('a, 'e, 's) Result \<Rightarrow> 'e error" where
  "Err r = err r"

text \<open>
  \<open>Val\<close> of the Result with a handler panics on a Result that holds an error; the
  panic is the left summand.  The file \<open>result.go\<close> holds a second \<open>Val\<close>, on a Result
  without a handler, which is \<open>Val_v0\<close> below.
\<close>

definition Val :: "('a, 'e, 's) Result \<Rightarrow> panic + 'a" where
  "Val r = (if IsError r then Inl (Panic ''called Val for result that IsError'')
            else Inr (val r))"

definition Return :: "('a, 'e, 's) Result \<Rightarrow> 'a \<times> 'e error" where
  "Return r = (val r, err r)"

subsection \<open>The error handler\<close>

text \<open>
  \<open>handleErr\<close> returns \<open>nil\<close> for a \<open>nil\<close> error, the error itself when no handler is
  installed, and otherwise whatever the handler returns, running the handler once.
\<close>

definition handleErr :: "('a, 'e, 's) Result \<Rightarrow> ('e error, 'e error, 's) func" where
  "handleErr r e s =
     (case e of
        None \<Rightarrow> (None, s)
      | Some x \<Rightarrow>
          (case errHandler r of
             None \<Rightarrow> (e, s)
           | Some h \<Rightarrow> h e s))"

definition WithErrHandler ::
  "('a, 'e, 's) Result \<Rightarrow> ('e error, 'e error, 's) func option \<Rightarrow> ('a, 'e, 's) Result" where
  "WithErrHandler input wrapFn = \<lparr>val = val input, err = err input, errHandler = wrapFn\<rparr>"

subsection \<open>Combinators\<close>

text \<open>
  \<open>Map\<close> and \<open>MapOrErr\<close> build a \<open>Result[newT]\<close> with a composite literal.  A field the
  literal does not name holds Go's zero value: the error branch leaves \<open>val\<close> at the
  zero value of \<open>newT\<close> and \<open>errHandler\<close> at \<open>nil\<close>.  A HOL type has no
  distinguished zero, so the zero value of \<open>newT\<close> is the first argument \<open>z\<close>.
\<close>

definition Map ::
  "'b \<Rightarrow> ('a, 'e, 's) Result \<Rightarrow> ('a, 'b, 's) func \<Rightarrow> 's \<Rightarrow> ('b, 'e, 's) Result \<times> 's" where
  "Map z input mapFn s =
     (if IsError input then (\<lparr>val = z, err = err input, errHandler = None\<rparr>, s)
      else (case mapFn (val input) s of
              (v, s1) \<Rightarrow> (\<lparr>val = v, err = None, errHandler = errHandler input\<rparr>, s1)))"

definition MapOrErr ::
  "'b \<Rightarrow> ('a, 'e, 's) Result \<Rightarrow> ('a, 'b \<times> 'e error, 's) func \<Rightarrow> 's
     \<Rightarrow> ('b, 'e, 's) Result \<times> 's" where
  "MapOrErr z input mapFn s =
     (if IsError input then (\<lparr>val = z, err = err input, errHandler = None\<rparr>, s)
      else (case mapFn (val input) s of
              ((newVal, newErr), s1) \<Rightarrow>
                (case handleErr input newErr s1 of
                   (e, s2) \<Rightarrow> (\<lparr>val = newVal, err = e, errHandler = errHandler input\<rparr>, s2))))"

text \<open>The callbacks of \<open>Fold\<close> return nothing: only the state comes back.\<close>

definition Fold ::
  "('a, 'e, 's) Result \<Rightarrow> ('a \<Rightarrow> 's \<Rightarrow> 's) \<Rightarrow> ('e error \<Rightarrow> 's \<Rightarrow> 's) \<Rightarrow> 's \<Rightarrow> 's" where
  "Fold input okFn errFn s =
     (if IsError input then errFn (err input) s else okFn (val input) s)"

text \<open>\<open>Check\<close> assigns to the \<open>err\<close> field of its own copy of \<open>input\<close> and returns the copy.\<close>

definition Check ::
  "('a, 'e, 's) Result \<Rightarrow> ('a, 'e error, 's) func \<Rightarrow> 's \<Rightarrow> ('a, 'e, 's) Result \<times> 's" where
  "Check input checkFn s =
     (if IsError input then (input, s)
      else (case checkFn (val input) s of
              (e, s1) \<Rightarrow>
                (case handleErr input e s1 of
                   (e', s2) \<Rightarrow> (input\<lparr>err := e'\<rparr>, s2))))"

subsection \<open>The Result of result.go\<close>





subsection \<open>Observing calls\<close>

text \<open>
  Whether a caller-supplied function ran is read off the state it threads.
  \<open>counting f\<close> behaves as \<open>f\<close> on the first component of the state and adds one to
  a counter kept beside it; \<open>uncounted f\<close> behaves as \<open>f\<close> and leaves the counter
  alone.  \<open>noting tag f\<close> wraps a callback of \<open>Fold\<close> and appends \<open>tag x\<close> to a log
  every time the callback runs on \<open>x\<close>.
\<close>

definition counting :: "('a, 'b, 's) func \<Rightarrow> ('a, 'b, 's \<times> nat) func" where
  "counting f x = (\<lambda>(s, n). case f x s of (y, s1) \<Rightarrow> (y, (s1, Suc n)))"

definition uncounted :: "('a, 'b, 's) func \<Rightarrow> ('a, 'b, 's \<times> nat) func" where
  "uncounted f x = (\<lambda>(s, n). case f x s of (y, s1) \<Rightarrow> (y, (s1, n)))"

definition noting ::
  "('a \<Rightarrow> 't) \<Rightarrow> ('a \<Rightarrow> 's \<Rightarrow> 's) \<Rightarrow> 'a \<Rightarrow> 's \<times> 't list \<Rightarrow> 's \<times> 't list" where
  "noting tag f x = (\<lambda>(s, l). (f x s, l @ [tag x]))"

subsection \<open>Chains of combinator calls\<close>

text \<open>
  Caller code threads a Result through one combinator call after another, each call
  finishing before the next starts.  A chain is the list of those calls with the
  function passed to each; \<open>chain\<close> runs them from left to right.  The value type is
  kept fixed along a chain (a chain whose calls change the type is covered by taking a
  sum of the types involved for \<open>'a\<close>).
\<close>

datatype ('a, 'e, 's) step =
    StepMap "('a, 'a, 's) func"
  | StepMapOrErr "('a, 'a \<times> 'e error, 's) func"
  | StepCheck "('a, 'e error, 's) func"

fun apply_step ::
  "'a \<Rightarrow> ('a, 'e, 's) step \<Rightarrow> ('a, 'e, 's) Result \<Rightarrow> 's \<Rightarrow> ('a, 'e, 's) Result \<times> 's" where
  "apply_step z (StepMap f) r s = Map z r f s"
| "apply_step z (StepMapOrErr f) r s = MapOrErr z r f s"
| "apply_step z (StepCheck f) r s = Check r f s"

fun chain ::
  "'a \<Rightarrow> ('a, 'e, 's) step list \<Rightarrow> ('a, 'e, 's) Result \<Rightarrow> 's \<Rightarrow> ('a, 'e, 's) Result \<times> 's" where
  "chain z [] r s = (r, s)"
| "chain z (c # cs) r s = (case apply_step z c r s of (r1, s1) \<Rightarrow> chain z cs r1 s1)"

text \<open>The calls of a chain whose functions do not touch the counter.\<close>

fun uncounted_step :: "('a, 'e, 's) step \<Rightarrow> ('a, 'e, 's \<times> nat) step" where
  "uncounted_step (StepMap f) = StepMap (uncounted f)"
| "uncounted_step (StepMapOrErr f) = StepMapOrErr (uncounted f)"
| "uncounted_step (StepCheck f) = StepCheck (uncounted f)"

text \<open>
  A call of a chain produces a new error when the function it is given returns a
  non-\<open>nil\<close> error on the value handed to it; \<open>Map\<close> takes a function that returns
  no error.
\<close>

fun produces_error :: "('a, 'e, 's) step \<Rightarrow> 'a \<Rightarrow> 's \<Rightarrow> bool" where
  "produces_error (StepMap f) v s = False"
| "produces_error (StepMapOrErr f) v s = (snd (fst (f v s)) \<noteq> None)"
| "produces_error (StepCheck f) v s = (fst (f v s) \<noteq> None)"

subsection \<open>Callbacks of the tests\<close>

text \<open>
  The functions the package's tests pass to the combinators, over a state that counts
  every call: a mapping function, a fallible mapping function and a check that fail
  with the error \<open>fail\<close>, a fallible mapping function and a check that pass, and the
  handler that puts \<open>wrapped: \<close> in front of the message.  \<open>swallow_err\<close> is a handler that returns \<open>nil\<close>.
\<close>

definition tick_map :: "(nat, nat, nat) func" where
  "tick_map v n = (Suc v, Suc n)"

definition tick_fail :: "(nat, nat \<times> string error, nat) func" where
  "tick_fail v n = ((0, Some ''fail''), Suc n)"

definition tick_ok :: "(nat, nat \<times> string error, nat) func" where
  "tick_ok v n = ((Suc v, None), Suc n)"

definition tick_check_fail :: "(nat, string error, nat) func" where
  "tick_check_fail v n = (Some ''fail'', Suc n)"

definition tick_check_ok :: "(nat, string error, nat) func" where
  "tick_check_ok v n = (None, Suc n)"

definition wrap_err :: "(string error, string error, nat) func" where
  "wrap_err e n = (case e of None \<Rightarrow> None | Some m \<Rightarrow> Some (''wrapped: '' @ m), Suc n)"

definition swallow_err :: "(string error, string error, nat) func" where
  "swallow_err e n = (None, Suc n)"

section \<open>Properties\<close>

lemmas fixture_defs = tick_map_def tick_fail_def tick_ok_def tick_check_fail_def
  tick_check_ok_def wrap_err_def swallow_err_def

subsection \<open>A stored error stops every later call\<close>

text \<open>
  On a Result that holds an error, each call of a chain returns the state it was given
  and keeps the error; so does a whole chain.
\<close>

lemma apply_step_IsError:
  "IsError r \<Longrightarrow> snd (apply_step z c r s) = s \<and> err (fst (apply_step z c r s)) = err r"
  by (cases c) (simp_all add: Map_def MapOrErr_def Check_def)

lemma chain_IsError:
  "IsError r \<Longrightarrow> snd (chain z cs r s) = s \<and> err (fst (chain z cs r s)) = err r"
proof (induction cs arbitrary: r)
  case Nil
  show ?case by simp
next
  case (Cons c cs)
  obtain r1 s1 where step: "apply_step z c r s = (r1, s1)"
    by (cases "apply_step z c r s")
  from apply_step_IsError [OF Cons.prems, of z c s] step
  have s1: "s1 = s" and e1: "err r1 = err r" by simp_all
  from e1 Cons.prems have "IsError r1" by (simp add: IsError_def)
  from Cons.IH [OF this] step s1 e1 show ?case by simp
qed

subsection \<open>Counting the runs of the handler\<close>

text \<open>
  On an Ok Result whose handler is \<open>counting h\<close>, one call adds one to the counter
  exactly when its function produces an error.  When \<open>h\<close> never returns \<open>nil\<close> for
  an error, the call either leaves the Result Ok with the handler still installed and
  the counter unchanged, or stores an error and adds one; a chain therefore adds at
  most one.
\<close>

lemma step_count:
  assumes "\<not> IsError r" and "errHandler r = Some (counting h)"
  shows "snd (snd (apply_step z (uncounted_step c) r (s, n)))
         = (if produces_error c (val r) s then Suc n else n)"
  using assms
  by (cases c)
     (auto simp add: Map_def MapOrErr_def Check_def handleErr_def counting_def uncounted_def
        split: prod.splits option.splits)

lemma step_invariant:
  assumes ns: "\<forall>e s. fst (h (Some e) s) \<noteq> None"
    and ok: "\<not> IsError r" and hd: "errHandler r = Some (counting h)"
    and st: "apply_step z (uncounted_step c) r (s, n) = (r1, (s1, n1))"
  shows "(\<not> IsError r1 \<and> errHandler r1 = Some (counting h) \<and> n1 = n)
         \<or> (IsError r1 \<and> n1 = Suc n)"
proof (cases c)
  case (StepMap f)
  with ok hd st show ?thesis
    by (auto simp add: Map_def uncounted_def IsError_def split: prod.splits)
next
  case (StepMapOrErr f)
  obtain v e sa where f: "f (val r) s = ((v, e), sa)" by (metis prod.exhaust)
  show ?thesis
  proof (cases e)
    case None
    with StepMapOrErr f ok hd st show ?thesis
      by (auto simp add: MapOrErr_def handleErr_def uncounted_def IsError_def)
  next
    case (Some x)
    obtain e' sb where h: "h (Some x) sa = (e', sb)" by (cases "h (Some x) sa")
    with ns have "e' \<noteq> None" by (metis fst_conv)
    with Some h StepMapOrErr f ok hd st show ?thesis
      by (auto simp add: MapOrErr_def handleErr_def uncounted_def counting_def IsError_def)
  qed
next
  case (StepCheck f)
  obtain e sa where f: "f (val r) s = (e, sa)" by (cases "f (val r) s")
  show ?thesis
  proof (cases e)
    case None
    with StepCheck f ok hd st show ?thesis
      by (auto simp add: Check_def handleErr_def uncounted_def IsError_def)
  next
    case (Some x)
    obtain e' sb where h: "h (Some x) sa = (e', sb)" by (cases "h (Some x) sa")
    with ns have "e' \<noteq> None" by (metis fst_conv)
    with Some h StepCheck f ok hd st show ?thesis
      by (auto simp add: Check_def handleErr_def uncounted_def counting_def IsError_def)
  qed
qed

lemma chain_invariant:
  assumes ns: "\<forall>e s. fst (h (Some e) s) \<noteq> None"
  shows "\<not> IsError r \<Longrightarrow> errHandler r = Some (counting h) \<Longrightarrow>
         chain z (map uncounted_step cs) r (s, n) = (r', (s', n')) \<Longrightarrow>
         (\<not> IsError r' \<and> n' = n) \<or> (IsError r' \<and> n' = Suc n)"
proof (induction cs arbitrary: r s)
  case Nil
  then show ?case by simp
next
  case (Cons c cs)
  obtain r1 s1 n1 where step: "apply_step z (uncounted_step c) r (s, n) = (r1, (s1, n1))"
    by (metis prod.exhaust)
  with Cons.prems(3) have rest: "chain z (map uncounted_step cs) r1 (s1, n1) = (r', (s', n'))"
    by simp
  from step_invariant [OF ns Cons.prems(1) Cons.prems(2) step]
  show ?case
  proof
    assume "\<not> IsError r1 \<and> errHandler r1 = Some (counting h) \<and> n1 = n"
    with Cons.IH [of r1 s1] rest show ?thesis by simp
  next
    assume a: "IsError r1 \<and> n1 = Suc n"
    then have "IsError r1" by simp
    from chain_IsError [OF this, of z "map uncounted_step cs" "(s1, n1)"] rest a
    show ?thesis by (simp add: IsError_def)
  qed
qed

subsection \<open>Short circuit\<close>

text \<open>
  C1. For a Result \<open>r\<close> that holds an error and any caller-supplied functions,
  \<open>Map\<close>, \<open>MapOrErr\<close> and \<open>Check\<close> hand back the state they were given, so the
  function passed in did not run (nor did the handler), and the error of the Result
  they return is the error of \<open>r\<close>.  The statement holds for every function and
  every state type, in particular for a function that counts its own calls.
\<close>

theorem err_state_short_circuit:
  assumes "IsError r"
  shows "snd (Map z r f s) = s \<and> err (fst (Map z r f s)) = err r
       \<and> snd (MapOrErr z r g s) = s \<and> err (fst (MapOrErr z r g s)) = err r
       \<and> snd (Check r c s) = s \<and> err (fst (Check r c s)) = err r"
  using assms by (simp add: Map_def MapOrErr_def Check_def)

theorem err_state_short_circuit_witness:
  "IsError (WithErrHandler (WithReturn 0 (Some ''fail'')) (Some wrap_err))
   \<and> snd (Map 0 (WithErrHandler (WithReturn 0 (Some ''fail'')) (Some wrap_err)) tick_map 5) = 5
   \<and> err (fst (Map 0 (WithErrHandler (WithReturn 0 (Some ''fail'')) (Some wrap_err)) tick_map 5))
       = Some ''fail''
   \<and> snd (MapOrErr 0 (WithErrHandler (WithReturn 0 (Some ''fail'')) (Some wrap_err)) tick_fail 5) = 5
   \<and> err (fst (MapOrErr 0 (WithErrHandler (WithReturn 0 (Some ''fail'')) (Some wrap_err)) tick_fail 5))
       = Some ''fail''
   \<and> snd (Check (WithErrHandler (WithReturn 0 (Some ''fail'')) (Some wrap_err)) tick_check_fail 5) = 5
   \<and> err (fst (Check (WithErrHandler (WithReturn 0 (Some ''fail'')) (Some wrap_err)) tick_check_fail 5))
       = Some ''fail''"
proof -
  have e: "IsError (WithErrHandler (WithReturn (0::nat) (Some ''fail'')) (Some wrap_err))"
    by (simp add: IsError_def WithErrHandler_def WithReturn_def)
  from err_state_short_circuit [OF e, where z = 0 and f = tick_map and s = 5
      and g = tick_fail and c = tick_check_fail] e
  show ?thesis by (simp add: WithErrHandler_def WithReturn_def IsError_def)
qed

subsection \<open>The handler along a chain\<close>

text \<open>
  C2, as the claim states it, fails: a handler that returns \<open>nil\<close> leaves the Result
  Ok, and the next error produced in the chain runs the handler again.  Two failing
  checks in a row run \<open>swallow_err\<close> twice.
\<close>

theorem handler_twice_counterexample:
  "snd (snd (chain 0 (map uncounted_step [StepCheck tick_check_fail, StepCheck tick_check_fail])
               (WithErrHandler (WithJust 3) (Some (counting swallow_err))) (0, 0))) = 2
   \<and> \<not> snd (snd (chain 0 (map uncounted_step [StepCheck tick_check_fail, StepCheck tick_check_fail])
               (WithErrHandler (WithJust 3) (Some (counting swallow_err))) (0, 0))) \<le> 1"
  by (simp add: Check_def handleErr_def IsError_def WithErrHandler_def WithJust_def
        counting_def uncounted_def tick_check_fail_def swallow_err_def)

text \<open>
  C2, amended. With handler \<open>h\<close> installed on an Ok Result, one call of \<open>Map\<close>,
  \<open>MapOrErr\<close> or \<open>Check\<close> runs \<open>h\<close> once if the function given to it produces an
  error and not at all otherwise.  On a Result that holds an error a chain changes
  nothing in the state, so it runs neither a function nor a handler.  If \<open>h\<close> never
  returns \<open>nil\<close> for an error, a chain that starts from a Result with \<open>h\<close> installed
  runs \<open>h\<close> at most once: exactly once when the Result was Ok at the start and holds
  an error at the end, never otherwise.
\<close>

theorem handler_invocations:
  "(\<not> IsError r \<longrightarrow>
      snd (snd (apply_step z (uncounted_step c) (WithErrHandler r (Some (counting h))) (s, n)))
        = (if produces_error c (val r) s then Suc n else n))
   \<and> (IsError r' \<longrightarrow> snd (chain z' cs' r' s') = s')
   \<and> ((\<forall>e t. fst (h (Some e) t) \<noteq> None) \<longrightarrow>
        snd (snd (chain z (map uncounted_step cs) (WithErrHandler r (Some (counting h))) (s, 0))) \<le> 1
        \<and> (snd (snd (chain z (map uncounted_step cs) (WithErrHandler r (Some (counting h))) (s, 0))) = 1
            \<longleftrightarrow> \<not> IsError r
              \<and> IsError (fst (chain z (map uncounted_step cs)
                                 (WithErrHandler r (Some (counting h))) (s, 0)))))"
proof (intro conjI impI)
  assume "\<not> IsError r"
  then have "\<not> IsError (WithErrHandler r (Some (counting h)))"
    by (simp add: IsError_def WithErrHandler_def)
  from step_count [OF this, of h z c s n]
  show "snd (snd (apply_step z (uncounted_step c) (WithErrHandler r (Some (counting h))) (s, n)))
        = (if produces_error c (val r) s then Suc n else n)"
    by (simp add: WithErrHandler_def)
next
  assume "IsError r'"
  from chain_IsError [OF this] show "snd (chain z' cs' r' s') = s'" by simp
next
  let ?r = "WithErrHandler r (Some (counting h))"
  let ?run = "chain z (map uncounted_step cs) ?r (s, 0)"
  assume ns: "\<forall>e t. fst (h (Some e) t) \<noteq> None"
  obtain r1 s1 n1 where run: "?run = (r1, (s1, n1))" by (metis prod.exhaust)
  have errcase: "n1 = 0 \<and> IsError r1" if e: "IsError r"
  proof -
    from e have "IsError ?r" by (simp add: IsError_def WithErrHandler_def)
    from chain_IsError [OF this, of z "map uncounted_step cs" "(s, 0)"] run e
    show ?thesis by (simp add: IsError_def WithErrHandler_def)
  qed
  have okcase: "(\<not> IsError r1 \<and> n1 = 0) \<or> (IsError r1 \<and> n1 = Suc 0)" if "\<not> IsError r"
  proof -
    from that have ok: "\<not> IsError ?r" by (simp add: IsError_def WithErrHandler_def)
    have hd: "errHandler ?r = Some (counting h)" by (simp add: WithErrHandler_def)
    from chain_invariant [OF ns ok hd run] show ?thesis .
  qed
  from errcase okcase run show "snd (snd ?run) \<le> 1" by (cases "IsError r") auto
  from errcase okcase run
  show "snd (snd ?run) = 1 \<longleftrightarrow> \<not> IsError r \<and> IsError (fst ?run)"
    by (cases "IsError r") auto
qed

theorem handler_invocations_witness:
  "snd (snd (apply_step 0 (uncounted_step (StepCheck tick_check_fail))
               (WithErrHandler (WithJust 3) (Some (counting wrap_err))) (0, 0))) = 1
   \<and> snd (chain 0 [StepMap tick_map, StepMapOrErr tick_fail, StepCheck tick_check_fail]
            (WithErrHandler (WithReturn 0 (Some ''fail'')) (Some wrap_err)) 5) = 5
   \<and> snd (snd (chain 0 (map uncounted_step
                          [StepCheck tick_check_fail, StepCheck tick_check_fail, StepMapOrErr tick_fail])
               (WithErrHandler (WithJust 3) (Some (counting wrap_err))) (0, 0))) \<le> 1"
  using handler_invocations [where r = "WithJust 3" and z = 0 and c = "StepCheck tick_check_fail"
      and h = wrap_err and s = 0 and n = 0
      and r' = "WithErrHandler (WithReturn 0 (Some ''fail'')) (Some wrap_err)" and z' = 0
      and cs' = "[StepMap tick_map, StepMapOrErr tick_fail, StepCheck tick_check_fail]"
      and s' = 5
      and cs = "[StepCheck tick_check_fail, StepCheck tick_check_fail, StepMapOrErr tick_fail]"]
  by (simp add: IsError_def WithJust_def WithReturn_def WithErrHandler_def
        tick_check_fail_def wrap_err_def)

subsection \<open>Map and the handler\<close>

text \<open>
  C3, as the claim states it, fails on a Result that holds an error: the literal that
  \<open>Map\<close> returns there names only the \<open>err\<close> field, so the handler of the input is
  not in the Result returned.
\<close>

theorem Map_drops_handler_counterexample:
  "IsError (WithErrHandler (WithReturn 0 (Some ''fail'')) (Some wrap_err))
   \<and> errHandler (fst (Map 0 (WithErrHandler (WithReturn 0 (Some ''fail'')) (Some wrap_err)) tick_map 5))
       \<noteq> errHandler (WithErrHandler (WithReturn 0 (Some ''fail'')) (Some wrap_err))"
  by (simp add: Map_def IsError_def WithErrHandler_def WithReturn_def)

text \<open>
  C3, amended. On a Result that holds an error \<open>Map\<close> returns, without running the
  function, a Result of the new type with the same error, the zero value and no
  handler.  On an Ok Result with value \<open>x\<close> it returns an Ok Result whose value is
  what the function returns on \<open>x\<close> and whose handler is the handler of the input.
\<close>

theorem Map_handler_frame:
  "(IsError r \<longrightarrow> Map z r f s = (\<lparr>val = z, err = err r, errHandler = None\<rparr>, s))
   \<and> (\<not> IsError r \<longrightarrow> f (val r) s = (v, s1) \<longrightarrow>
        Map z r f s = (\<lparr>val = v, err = None, errHandler = errHandler r\<rparr>, s1))"
  by (simp add: Map_def)

theorem Map_handler_frame_witness:
  "Map 0 (WithErrHandler (WithReturn 0 (Some ''fail'')) (Some wrap_err)) tick_map 5
     = (\<lparr>val = 0, err = Some ''fail'', errHandler = None\<rparr>, 5)
   \<and> Map 0 (WithErrHandler (WithJust 3) (Some wrap_err)) tick_map 5
     = (\<lparr>val = 4, err = None, errHandler = Some wrap_err\<rparr>, 6)"
  using Map_handler_frame [where r = "WithErrHandler (WithReturn 0 (Some ''fail'')) (Some wrap_err)"
      and z = 0 and f = tick_map and s = 5]
    Map_handler_frame [where r = "WithErrHandler (WithJust 3) (Some wrap_err)"
      and z = 0 and f = tick_map and s = 5 and v = 4 and ?s1.0 = 6]
  by (simp add: IsError_def WithErrHandler_def WithReturn_def WithJust_def tick_map_def)

subsection \<open>Reading the value\<close>

text \<open>
  \<open>Val\<close> of the Result with a handler does what the package documents and
  \<open>TestVal\<close> asserts: on a Result that holds an error it panics and returns no value,
  and on an Ok Result it returns the wrapped value.
\<close>

lemma Val_panics_on_error:
  "(IsError r \<longrightarrow> Val r = Inl (Panic ''called Val for result that IsError''))
   \<and> (\<not> IsError r \<longrightarrow> Val r = Inr (val r))"
  by (simp add: Val_def)

lemma Val_panics_on_error_witness:
  "Val (WithReturn (0::nat) (Some ''fail'') :: (nat, string, nat) Result)
     = Inl (Panic ''called Val for result that IsError'')
   \<and> Val (WithJust (7::nat) :: (nat, string, nat) Result) = Inr 7"
  using Val_panics_on_error [of "WithReturn (0::nat) (Some ''fail'') :: (nat, string, nat) Result"]
    Val_panics_on_error [of "WithJust (7::nat) :: (nat, string, nat) Result"]
  by (simp add: IsError_def WithReturn_def WithJust_def)


subsection \<open>New errors pass through the handler\<close>

text \<open>
  C5. On an Ok Result with handler \<open>h\<close> installed, \<open>MapOrErr\<close> runs the function on
  the value of the Result.  If the function returns an error \<open>e\<close>, the handler then
  runs on \<open>e\<close> in the state the function left, and the error of the Result returned
  is what the handler returns; if the function returns no error the handler does not
  run.  Either way the Result returned carries \<open>h\<close> and the value the function
  returned.
\<close>

theorem MapOrErr_handles_new_error:
  assumes "\<not> IsError r" and "errHandler r = Some h"
  shows "(f (val r) s = ((v, Some e), s1) \<longrightarrow> h (Some e) s1 = (e', s2) \<longrightarrow>
            MapOrErr z r f s = (\<lparr>val = v, err = e', errHandler = Some h\<rparr>, s2))
       \<and> (f (val r) s = ((v, None), s1) \<longrightarrow>
            MapOrErr z r f s = (\<lparr>val = v, err = None, errHandler = Some h\<rparr>, s1))"
  using assms by (simp add: MapOrErr_def handleErr_def)

theorem MapOrErr_handles_new_error_witness:
  "MapOrErr 0 (WithErrHandler (WithJust 3) (Some wrap_err)) tick_fail 0
     = (\<lparr>val = 0, err = Some ''wrapped: fail'', errHandler = Some wrap_err\<rparr>, 2)
   \<and> MapOrErr 0 (WithErrHandler (WithJust 3) (Some wrap_err)) tick_ok 0
     = (\<lparr>val = 4, err = None, errHandler = Some wrap_err\<rparr>, 1)"
proof -
  have a: "\<not> IsError (WithErrHandler (WithJust (3::nat)) (Some wrap_err))"
    and b: "errHandler (WithErrHandler (WithJust (3::nat)) (Some wrap_err)) = Some wrap_err"
    by (simp_all add: IsError_def WithErrHandler_def WithJust_def)
  from MapOrErr_handles_new_error [OF a b, where f = tick_fail and s = 0 and v = 0
      and e = "''fail''" and ?s1.0 = 1 and e' = "Some ''wrapped: fail''" and ?s2.0 = 2 and z = 0]
    MapOrErr_handles_new_error [OF a b, where f = tick_ok and s = 0 and v = 4
      and ?s1.0 = 1 and z = 0]
  show ?thesis by (simp add: WithErrHandler_def WithJust_def fixture_defs)
qed

text \<open>
  C6, as the claim states it, fails when the handler returns \<open>nil\<close>: the check
  produced an error, yet the Result returned holds none.
\<close>

theorem Check_swallowed_counterexample:
  "\<not> IsError (WithErrHandler (WithJust 3) (Some swallow_err))
   \<and> fst (tick_check_fail (val (WithErrHandler (WithJust 3) (Some swallow_err))) 0) = Some ''fail''
   \<and> \<not> IsError (fst (Check (WithErrHandler (WithJust 3) (Some swallow_err)) tick_check_fail 0))"
  by (simp add: Check_def handleErr_def IsError_def WithErrHandler_def WithJust_def
        tick_check_fail_def swallow_err_def)

text \<open>
  C6, amended. \<open>Check\<close> on a Result that holds an error returns it unchanged and does
  not run the function.  On an Ok Result whose function returns an error \<open>e\<close>, the
  Result returned differs from the input in its error only, which is \<open>e\<close> when no
  handler is installed and what the handler returns on \<open>e\<close> otherwise; it holds an
  error exactly when that is not \<open>nil\<close>.  On an Ok Result whose function returns
  \<open>nil\<close>, the Result is returned unchanged.
\<close>

theorem Check_cases:
  "(IsError r \<longrightarrow> Check r f s = (r, s))
   \<and> (\<not> IsError r \<longrightarrow> f (val r) s = (Some e, s1) \<longrightarrow> errHandler r = None \<longrightarrow>
        Check r f s = (r\<lparr>err := Some e\<rparr>, s1))
   \<and> (\<not> IsError r \<longrightarrow> f (val r) s = (Some e, s1) \<longrightarrow> errHandler r = Some h \<longrightarrow>
        h (Some e) s1 = (e', s2) \<longrightarrow>
        Check r f s = (r\<lparr>err := e'\<rparr>, s2)
        \<and> (IsError (fst (Check r f s)) \<longleftrightarrow> e' \<noteq> None))
   \<and> (\<not> IsError r \<longrightarrow> f (val r) s = (None, s1) \<longrightarrow> Check r f s = (r, s1))"
  by (simp add: Check_def handleErr_def IsError_def)

theorem Check_cases_witness:
  "Check (WithErrHandler (WithReturn 0 (Some ''old'')) (Some wrap_err)) tick_check_fail 5
     = (WithErrHandler (WithReturn 0 (Some ''old'')) (Some wrap_err), 5)
   \<and> Check (WithJust 3) tick_check_fail 5
     = (\<lparr>val = 3, err = Some ''fail'', errHandler = None\<rparr>, 6)
   \<and> Check (WithErrHandler (WithJust 3) (Some wrap_err)) tick_check_fail 5
     = (\<lparr>val = 3, err = Some ''wrapped: fail'', errHandler = Some wrap_err\<rparr>, 7)
   \<and> IsError (fst (Check (WithErrHandler (WithJust 3) (Some wrap_err)) tick_check_fail 5))
   \<and> Check (WithErrHandler (WithJust 3) (Some wrap_err)) tick_check_ok 5
     = (WithErrHandler (WithJust 3) (Some wrap_err), 6)"
  using Check_cases [where r = "WithErrHandler (WithReturn 0 (Some ''old'')) (Some wrap_err)"
      and f = tick_check_fail and s = 5]
    Check_cases [where r = "WithJust 3" and f = tick_check_fail and s = 5 and e = "''fail''"
      and ?s1.0 = 6]
    Check_cases [where r = "WithErrHandler (WithJust 3) (Some wrap_err)" and f = tick_check_fail
      and s = 5 and e = "''fail''" and ?s1.0 = 6 and h = wrap_err
      and e' = "Some ''wrapped: fail''" and ?s2.0 = 7]
    Check_cases [where r = "WithErrHandler (WithJust 3) (Some wrap_err)" and f = tick_check_ok
      and s = 5 and ?s1.0 = 6]
  by (simp add: IsError_def WithErrHandler_def WithReturn_def WithJust_def
        tick_check_fail_def tick_check_ok_def wrap_err_def)

subsection \<open>Installing a handler\<close>

text \<open>
  C7. \<open>WithErrHandler r h\<close> has the value and the error of \<open>r\<close>, so an error
  already stored is not passed to \<open>h\<close>, and it has \<open>h\<close> as its handler whatever
  handler \<open>r\<close> had: a later error goes through \<open>h\<close> alone.
\<close>

theorem WithErrHandler_frame:
  "val (WithErrHandler r (Some h)) = val r
   \<and> err (WithErrHandler r (Some h)) = err r
   \<and> IsError (WithErrHandler r (Some h)) = IsError r
   \<and> errHandler (WithErrHandler r (Some h)) = Some h
   \<and> handleErr (WithErrHandler r (Some h)) (Some e) s = h (Some e) s"
  by (simp add: WithErrHandler_def IsError_def handleErr_def)

subsection \<open>Construction from a value and an error\<close>

text \<open>
  C8. \<open>WithReturn v e\<close> holds an error exactly when \<open>e\<close> is not \<open>nil\<close>, and \<open>Err\<close>
  gives back exactly \<open>e\<close>.
\<close>

theorem WithReturn_error_iff:
  "(\<not> IsError (WithReturn v e :: ('a, 'e, 's) Result)) = (e = None)
   \<and> Err (WithReturn v e :: ('a, 'e, 's) Result) = e"
  by (simp add: IsError_def WithReturn_def Err_def)

subsection \<open>Fold\<close>

text \<open>
  C9. \<open>Fold\<close> runs exactly one of its two callbacks, exactly once: with both
  callbacks noting their calls, the log grows by one entry, which is the error
  callback on the error of the Result when it holds one and the value callback on its
  value otherwise; the state is what that one callback returns.
\<close>

theorem Fold_one_callback:
  "Fold r (noting Inl okFn) (noting Inr errFn) (s, l) =
    (if IsError r then (errFn (err r) s, l @ [Inr (err r)])
     else (okFn (val r) s, l @ [Inl (val r)]))"
  by (simp add: Fold_def noting_def)

subsection \<open>A handler that returns nil\<close>

text \<open>
  C10. When the handler returns \<open>nil\<close> for an error newly produced on an Ok Result,
  \<open>Check\<close> returns the Result as it was and \<open>MapOrErr\<close> returns an Ok Result with
  the value the function returned: no error is stored.
\<close>

theorem handler_may_swallow:
  assumes "\<not> IsError r" and "errHandler r = Some h" and "h (Some e) s1 = (None, s2)"
  shows "(f (val r) s = (Some e, s1) \<longrightarrow>
            Check r f s = (r, s2) \<and> \<not> IsError (fst (Check r f s)))
       \<and> (g (val r) s = ((v, Some e), s1) \<longrightarrow>
            MapOrErr z r g s = (\<lparr>val = v, err = None, errHandler = Some h\<rparr>, s2)
            \<and> \<not> IsError (fst (MapOrErr z r g s)))"
  using assms by (simp add: Check_def MapOrErr_def handleErr_def IsError_def)

theorem handler_may_swallow_witness:
  "Check (WithErrHandler (WithJust 3) (Some swallow_err)) tick_check_fail 0
     = (WithErrHandler (WithJust 3) (Some swallow_err), 2)
   \<and> \<not> IsError (fst (Check (WithErrHandler (WithJust 3) (Some swallow_err)) tick_check_fail 0))
   \<and> MapOrErr 0 (WithErrHandler (WithJust 3) (Some swallow_err)) tick_fail 0
     = (\<lparr>val = 0, err = None, errHandler = Some swallow_err\<rparr>, 2)
   \<and> \<not> IsError (fst (MapOrErr 0 (WithErrHandler (WithJust 3) (Some swallow_err)) tick_fail 0))"
proof -
  have a: "\<not> IsError (WithErrHandler (WithJust (3::nat)) (Some swallow_err))"
    and b: "errHandler (WithErrHandler (WithJust (3::nat)) (Some swallow_err)) = Some swallow_err"
    and c: "swallow_err (Some ''fail'') (Suc 0) = (None, 2)"
    by (simp_all add: IsError_def WithErrHandler_def WithJust_def swallow_err_def)
  from handler_may_swallow [OF a b c, where f = tick_check_fail and s = 0 and g = tick_fail
      and v = 0 and z = 0]
  show ?thesis
    by (simp add: WithErrHandler_def WithJust_def tick_check_fail_def tick_fail_def IsError_def)

qed

end
